theory Spec2Isabelle
  imports Complex_Main
begin

section \<open>Python values handled by the client\<close>

text \<open>
  The arguments that the client methods receive (identifiers, flags, optional
  parameters) are \<open>None\<close>, booleans, integers or strings. A Python \<open>str\<close> is
  represented by the bytes of its UTF-8 encoding, so \<open>s.encode()\<close> is the identity
  and concatenation is \<open>@\<close>.
\<close>

datatype pyval = PNone | PBool bool | PInt int | PStr string

text \<open>\<open>isinstance(x, bool)\<close>.\<close>

fun isinstance_bool :: "pyval \<Rightarrow> bool" where
  "isinstance_bool (PBool b) = True"
| "isinstance_bool v = False"

definition digit_char :: "nat \<Rightarrow> char" where
  "digit_char d = ''0123456789'' ! d"

fun nat_str :: "nat \<Rightarrow> string" where
  "nat_str n =
     (if n < 10 then [digit_char n] else nat_str (n div 10) @ [digit_char (n mod 10)])"

declare nat_str.simps [simp del]

definition int_str :: "int \<Rightarrow> string" where
  "int_str i = (if i < 0 then CHR ''-'' # nat_str (nat (- i)) else nat_str (nat i))"

text \<open>
  \<open>str(x)\<close>; \<open>format(x, '')\<close>, which is what \<open>str.format\<close> and an f-string apply to
  a replacement field without a format spec, agrees with it on these types.
\<close>

fun py_str :: "pyval \<Rightarrow> string" where
  "py_str PNone = ''None''"
| "py_str (PBool b) = (if b then ''True'' else ''False'')"
| "py_str (PInt i) = int_str i"
| "py_str (PStr s) = s"

text \<open>\<open>sep.join(xs)\<close>.\<close>

fun str_join :: "string \<Rightarrow> string list \<Rightarrow> string" where
  "str_join sep [] = []"
| "str_join sep [x] = x"
| "str_join sep (x # y # ys) = x @ sep @ str_join sep (y # ys)"

section \<open>\<open>json.dumps\<close>\<close>

text \<open>
  With the default \<open>ensure_ascii\<close>, every character of a string outside the
  printable ASCII range, the quote and the backslash are escaped; a code point
  beyond the basic plane becomes a surrogate pair. The code points are read off the
  UTF-8 bytes.
\<close>

fun utf8_decode :: "nat list \<Rightarrow> nat list" where
  "utf8_decode (a # b # c # d # rest) =
     (if a < 128 then a # utf8_decode (b # c # d # rest)
      else if a < 224 then (a mod 32 * 64 + b mod 64) # utf8_decode (c # d # rest)
      else if a < 240 then
        (a mod 16 * 4096 + b mod 64 * 64 + c mod 64) # utf8_decode (d # rest)
      else (a mod 8 * 262144 + b mod 64 * 4096 + c mod 64 * 64 + d mod 64)
             # utf8_decode rest)"
| "utf8_decode [a, b, c] =
     (if a < 128 then a # utf8_decode [b, c]
      else if a < 224 then (a mod 32 * 64 + b mod 64) # utf8_decode [c]
      else [a mod 16 * 4096 + b mod 64 * 64 + c mod 64])"
| "utf8_decode [a, b] =
     (if a < 128 then a # utf8_decode [b] else [a mod 32 * 64 + b mod 64])"
| "utf8_decode [a] = [a]"
| "utf8_decode [] = []"

definition hex_char :: "nat \<Rightarrow> char" where
  "hex_char d = ''0123456789abcdef'' ! d"

text \<open>\<open>'\\u{0:04x}'.format(n)\<close>.\<close>

definition u_escape :: "nat \<Rightarrow> string" where
  "u_escape n =
     [CHR 0x5C, CHR ''u'', hex_char (n div 4096 mod 16), hex_char (n div 256 mod 16),
      hex_char (n div 16 mod 16), hex_char (n mod 16)]"

definition escape_char :: "nat \<Rightarrow> string" where
  "escape_char n =
     (if n = 0x5C then [CHR 0x5C, CHR 0x5C]
      else if n = 0x22 then [CHR 0x5C, CHR 0x22]
      else if n = 8 then [CHR 0x5C, CHR ''b'']
      else if n = 12 then [CHR 0x5C, CHR ''f'']
      else if n = 10 then [CHR 0x5C, CHR ''n'']
      else if n = 13 then [CHR 0x5C, CHR ''r'']
      else if n = 9 then [CHR 0x5C, CHR ''t'']
      else if 32 \<le> n \<and> n \<le> 126 then [char_of n]
      else if n < 65536 then u_escape n
      else u_escape (55296 + (n - 65536) div 1024 mod 1024)
             @ u_escape (56320 + (n - 65536) mod 1024))"

fun json_dumps :: "pyval \<Rightarrow> string" where
  "json_dumps PNone = ''null''"
| "json_dumps (PBool b) = (if b then ''true'' else ''false'')"
| "json_dumps (PInt i) = int_str i"
| "json_dumps (PStr s) =
     [CHR 0x22] @ concat (map escape_char (utf8_decode (map of_char s))) @ [CHR 0x22]"

section \<open>Base64 (\<open>base64.b64encode\<close>)\<close>

text \<open>
  The standard alphabet with \<open>=\<close> padding: three bytes become four characters of
  six bits each.
\<close>

definition b64_alphabet :: string where
  "b64_alphabet = ''ABCDEFGHIJKLMNOPQRSTUVWXYZabcdefghijklmnopqrstuvwxyz0123456789+/''"

definition b64_char :: "nat \<Rightarrow> char" where
  "b64_char n = b64_alphabet ! n"

fun b64_bytes :: "nat list \<Rightarrow> string" where
  "b64_bytes [] = []"
| "b64_bytes [a] =
     [b64_char (a div 4), b64_char ((a mod 4) * 16), CHR ''='', CHR ''='']"
| "b64_bytes [a, b] =
     [b64_char (a div 4), b64_char ((a mod 4) * 16 + b div 16),
      b64_char ((b mod 16) * 4), CHR ''='']"
| "b64_bytes (a # b # c # rest) =
     [b64_char (a div 4), b64_char ((a mod 4) * 16 + b div 16),
      b64_char ((b mod 16) * 4 + c div 64), b64_char (c mod 64)] @ b64_bytes rest"

definition b64encode :: "string \<Rightarrow> string" where
  "b64encode s = b64_bytes (map of_char s)"

section \<open>Decoded JSON\<close>

text \<open>
  What \<open>response.json()\<close> yields. A JSON number with a fraction or an exponent is a
  Python float; the code only tests a float for truth and compares it with an
  integer, both of which Python decides on the exact value, so a finite float is
  carried as the rational it denotes. An object is the list of its items in order;
  a decoded object has no repeated key.
\<close>

datatype pyfloat = FNum rat | FNegZero | FInf | FNegInf | FNaN

datatype json =
    JNull
  | JBool bool
  | JInt int
  | JFloat pyfloat
  | JStr string
  | JList "json list"
  | JDict "(string \<times> json) list"

fun float_truthy :: "pyfloat \<Rightarrow> bool" where
  "float_truthy (FNum q) = (q \<noteq> 0)"
| "float_truthy FNegZero = False"
| "float_truthy f = True"

text \<open>\<open>bool(x)\<close>, the test of \<open>if x:\<close>.\<close>

fun truthy :: "json \<Rightarrow> bool" where
  "truthy JNull = False"
| "truthy (JBool b) = b"
| "truthy (JInt i) = (i \<noteq> 0)"
| "truthy (JFloat f) = float_truthy f"
| "truthy (JStr s) = (s \<noteq> [])"
| "truthy (JList xs) = (xs \<noteq> [])"
| "truthy (JDict d) = (d \<noteq> [])"

text \<open>\<open>isinstance(x, str)\<close>.\<close>

fun isinstance_str :: "json \<Rightarrow> bool" where
  "isinstance_str (JStr s) = True"
| "isinstance_str v = False"

fun float_eq_int :: "pyfloat \<Rightarrow> int \<Rightarrow> bool" where
  "float_eq_int (FNum q) n = (q = of_int n)"
| "float_eq_int FNegZero n = (n = 0)"
| "float_eq_int f n = False"

text \<open>\<open>x == n\<close> for an integer literal \<open>n\<close>: \<open>True\<close> and \<open>False\<close> count as 1 and 0.\<close>

fun py_eq_int :: "json \<Rightarrow> int \<Rightarrow> bool" where
  "py_eq_int (JInt i) n = (i = n)"
| "py_eq_int (JBool b) n = ((if b then 1 else 0) = n)"
| "py_eq_int (JFloat f) n = float_eq_int f n"
| "py_eq_int v n = False"

section \<open>Exceptions\<close>

text \<open>
  The four API exceptions carry the argument they are raised with. The others are
  the built-in exceptions that the code lets escape; \<open>TransportError\<close> stands for
  whatever \<open>requests.get\<close> raises.
\<close>

datatype error =
    UnknownError json
  | AuthenticationError json
  | BadRequestError json
  | TooManyRequestsError json
  | KeyError string
  | TypeError
  | ValueError
  | JSONDecodeError
  | TransportError

text \<open>\<open>isinstance(e, WyscoutAPIError)\<close>.\<close>

fun is_WyscoutAPIError :: "error \<Rightarrow> bool" where
  "is_WyscoutAPIError (UnknownError m) = True"
| "is_WyscoutAPIError (AuthenticationError m) = True"
| "is_WyscoutAPIError (BadRequestError m) = True"
| "is_WyscoutAPIError (TooManyRequestsError m) = True"
| "is_WyscoutAPIError e = False"

text \<open>\<open>x[k]\<close> for a string key \<open>k\<close>: only a mapping can be indexed by a string.\<close>

fun getitem :: "json \<Rightarrow> string \<Rightarrow> error + json" where
  "getitem (JDict d) k = (case map_of d k of None \<Rightarrow> Inl (KeyError k) | Some v \<Rightarrow> Inr v)"
| "getitem v k = Inl TypeError"

section \<open>The loader\<close>

record RateLimiter =
  max_calls :: int
  period :: int

record WyscoutAPILoader =
  username :: pyval
  version :: pyval
  rate_limiter :: RateLimiter
  headers :: "(string \<times> string) list"

definition BASE_URL :: string where
  "BASE_URL = ''https://apirest.wyscout.com''"

text \<open>
  \<open>ratelimiter.RateLimiter(max_calls, period)\<close> refuses a number of calls or a
  period that is not positive.
\<close>

definition RateLimiter_init :: "int \<Rightarrow> int \<Rightarrow> error + RateLimiter" where
  "RateLimiter_init calls per =
     (if per \<le> 0 then Inl ValueError
      else if calls \<le> 0 then Inl ValueError
      else Inr \<lparr>max_calls = calls, period = per\<rparr>)"

text \<open>
  \<open>WyscoutAPILoader.__init__(username, password, version, requests_per_sec)\<close>; the
  defaults of the last two are \<open>'v3'\<close> and \<open>12\<close>.
\<close>

definition init :: "pyval \<Rightarrow> pyval \<Rightarrow> pyval \<Rightarrow> int \<Rightarrow> error + WyscoutAPILoader" where
  "init user password ver requests_per_sec =
     (case RateLimiter_init requests_per_sec 1 of
        Inl e \<Rightarrow> Inl e
      | Inr limiter \<Rightarrow>
          (let auth = b64encode (py_str user @ '':'' @ py_str password)
           in Inr \<lparr>username = user, version = ver, rate_limiter = limiter,
                   headers = [(''Authorization'', ''Basic '' @ auth)]\<rparr>))"

definition url :: "WyscoutAPILoader \<Rightarrow> pyval list \<Rightarrow> string" where
  "url self route =
     BASE_URL @ ''/'' @ py_str (version self) @ ''/'' @ str_join ''/'' (map py_str route)"

subsection \<open>Classifying a response\<close>

text \<open>A response either has a body that decodes as JSON or has none.\<close>

datatype response = Response (body: "json option")

definition response_json :: "response \<Rightarrow> error + json" where
  "response_json r = (case body r of None \<Rightarrow> Inl JSONDecodeError | Some c \<Rightarrow> Inr c)"

text \<open>\<open>raise exc(error['message'])\<close>: the lookup may itself raise.\<close>

definition raise_message :: "(json \<Rightarrow> error) \<Rightarrow> json \<Rightarrow> error" where
  "raise_message exc err = (case getitem err ''message'' of Inl e \<Rightarrow> e | Inr m \<Rightarrow> exc m)"

text \<open>The body of \<open>if error:\<close>, which always raises.\<close>

definition raise_for_error :: "json \<Rightarrow> error" where
  "raise_for_error err =
     (if isinstance_str err then UnknownError err
      else case getitem err ''code'' of
        Inl e \<Rightarrow> e
      | Inr code \<Rightarrow>
          if py_eq_int code 401 then raise_message AuthenticationError err
          else if py_eq_int code 400 then raise_message BadRequestError err
          else if py_eq_int code 429 then raise_message TooManyRequestsError err
          else raise_message UnknownError err)"

text \<open>
  \<open>content.get('error', None)\<close> exists on a mapping only; on anything else the
  \<open>AttributeError\<close> is caught and the content returned.
\<close>

definition parse_response :: "response \<Rightarrow> error + json" where
  "parse_response r =
     (case response_json r of
        Inl e \<Rightarrow> Inl e
      | Inr content \<Rightarrow>
          (case content of
             JDict d \<Rightarrow>
               (let err = (case map_of d ''error'' of None \<Rightarrow> JNull | Some v \<Rightarrow> v)
                in if truthy err then Inl (raise_for_error err) else Inr content)
           | _ \<Rightarrow> Inr content))"

subsection \<open>Issuing a request\<close>

record request =
  req_url :: string
  req_headers :: "(string \<times> string) list"
  req_params :: "(string \<times> pyval) list"

text \<open>
  The loop over \<open>params.items()\<close>. Keyword arguments have string names, and the
  test is made on the name \<open>param\<close>.
\<close>

fun convert_params :: "(string \<times> pyval) list \<Rightarrow> (string \<times> pyval) list" where
  "convert_params [] = []"
| "convert_params ((param, val) # rest) =
     (if isinstance_bool (PStr param) then (param, PStr (json_dumps val))
      else (param, val)) # convert_params rest"

text \<open>The arguments of the call to \<open>requests.get\<close>.\<close>

definition outbound_request ::
  "WyscoutAPILoader \<Rightarrow> pyval list \<Rightarrow> (string \<times> pyval) list \<Rightarrow> request" where
  "outbound_request self route params =
     \<lparr>req_url = url self route, req_headers = headers self,
      req_params = convert_params params\<rparr>"

text \<open>
  \<open>requests.get\<close> is a parameter: a function from the arguments it is called with
  to the response, or to the exception it raises. Entering the rate limiter only
  delays the call, so it does not appear in the result.
\<close>

type_synonym http_get = "request \<Rightarrow> error + response"

definition get_route_json ::
  "http_get \<Rightarrow> WyscoutAPILoader \<Rightarrow> pyval list \<Rightarrow> (string \<times> pyval) list \<Rightarrow> error + json" where
  "get_route_json requests_get self route params =
     (case requests_get (outbound_request self route params) of
        Inl x \<Rightarrow> Inl x
      | Inr r \<Rightarrow> parse_response r)"

subsection \<open>The query string that \<open>requests\<close> builds\<close>

text \<open>
  While it prepares the request, \<open>requests\<close> merges \<open>params\<close> with the session's
  (empty) parameters and deletes the keys whose value is \<open>None\<close>.
\<close>

definition merge_setting :: "(string \<times> pyval) list \<Rightarrow> (string \<times> pyval) list" where
  "merge_setting request_setting = filter (\<lambda>(k, v). v \<noteq> PNone) request_setting"

text \<open>
  It then lists the pairs to encode, again passing over a value that is \<open>None\<close>;
  \<open>urlencode\<close> turns a value that is not a string into one with \<open>str\<close>.
\<close>

definition encode_params :: "(string \<times> pyval) list \<Rightarrow> (string \<times> string) list" where
  "encode_params data =
     map (\<lambda>(k, v). (k, py_str v)) (filter (\<lambda>(k, v). v \<noteq> PNone) data)"

text \<open>
  \<open>urllib.parse.quote_plus\<close>, byte by byte: letters, digits and \<open>_.-~\<close> stay, a space
  becomes \<open>+\<close>, any other byte becomes \<open>%\<close> and two upper-case hexadecimal digits.
\<close>

definition always_safe :: string where
  "always_safe = ''ABCDEFGHIJKLMNOPQRSTUVWXYZabcdefghijklmnopqrstuvwxyz0123456789_.-~''"

definition upper_hex_char :: "nat \<Rightarrow> char" where
  "upper_hex_char d = ''0123456789ABCDEF'' ! d"

definition quote_char :: "char \<Rightarrow> string" where
  "quote_char c =
     (if c \<in> set always_safe then [c]
      else if c = CHR '' '' then ''+''
      else [CHR ''%'', upper_hex_char (of_char c div 16), upper_hex_char (of_char c mod 16)])"

definition quote_plus :: "string \<Rightarrow> string" where
  "quote_plus s = concat (map quote_char s)"

definition urlencode :: "(string \<times> string) list \<Rightarrow> string" where
  "urlencode query =
     str_join ''&'' (map (\<lambda>(k, v). quote_plus k @ ''='' @ quote_plus v) query)"

text \<open>
  The name and value pairs that go into the query string of a call to
  \<open>requests.get\<close>, and the query string itself.
\<close>

definition query_items :: "request \<Rightarrow> (string \<times> string) list" where
  "query_items req = encode_params (merge_setting (req_params req))"

definition query_string :: "request \<Rightarrow> string" where
  "query_string req = urlencode (query_items req)"

section \<open>The client\<close>

record APIClient =
  loader :: WyscoutAPILoader

definition team_career ::
  "http_get \<Rightarrow> APIClient \<Rightarrow> pyval \<Rightarrow> pyval \<Rightarrow> pyval \<Rightarrow> pyval \<Rightarrow> error + json" where
  "team_career requests_get self team_id season_id details fetch =
     get_route_json requests_get (loader self) [PStr ''teams'', team_id, PStr ''career'']
       [(''details'', details), (''fetch'', fetch)]"

text \<open>
  \<open>timestamp\<close> and \<open>object_type\<close> are strings: a time as
  \<open>YYYY-MM-DD HH:MM:SS\<close> and the name of a kind of object.
\<close>

definition updated_objects :: "http_get \<Rightarrow> APIClient \<Rightarrow> string \<Rightarrow> string \<Rightarrow> error + json" where
  "updated_objects requests_get self timestamp object_type =
     (case get_route_json requests_get (loader self) [PStr ''updatedobjects'']
             [(''updated_since'', PStr timestamp), (''type'', PStr object_type)] of
        Inl x \<Rightarrow> Inl x
      | Inr content \<Rightarrow> getitem content object_type)"

section \<open>Values for examples\<close>

text \<open>An HTTP client that answers every request with the response \<open>r\<close>.\<close>

definition canned :: "response \<Rightarrow> http_get" where
  "canned r req = Inr r"

text \<open>The loader that \<open>WyscoutAPILoader('user', 'pass')\<close> constructs.\<close>

definition demo_loader :: WyscoutAPILoader where
  "demo_loader =
     \<lparr>username = PStr ''user'', version = PStr ''v3'',
      rate_limiter = \<lparr>max_calls = 12, period = 1\<rparr>,
      headers = [(''Authorization'', ''Basic dXNlcjpwYXNz'')]\<rparr>"

section \<open>Auxiliary facts\<close>

text \<open>No parameter name is a boolean, so the loop changes nothing.\<close>

lemma convert_params_same: "convert_params ps = ps"
  by (induction ps) auto

lemma str_join_Cons: "str_join sep (x # xs) = x @ concat (map (\<lambda>s. sep @ s) xs)"
  by (induction xs arbitrary: x) auto

lemma get_route_json_response:
  "requests_get (outbound_request self route params) = Inr r \<Longrightarrow>
   get_route_json requests_get self route params = parse_response r"
  by (simp add: get_route_json_def)

lemma parse_response_error:
  "body r = Some (JDict d) \<Longrightarrow> map_of d ''error'' = Some err \<Longrightarrow> truthy err \<Longrightarrow>
   parse_response r = Inl (raise_for_error err)"
  by (simp add: parse_response_def response_json_def)

section \<open>Request parameters\<close>

text \<open>
  C1 (the code departs from it). The claim: a parameter whose value is \<open>True\<close> or
  \<open>False\<close> goes out as the string \<open>"true"\<close> or \<open>"false"\<close>. The loop of
  \<open>get_route_json\<close> tests the parameter's name, not its value, so the conversion
  that its comment announces never runs: for the call that \<open>match(5, use_sides=True)\<close>
  makes, the mapping handed to \<open>requests.get\<close> still holds the boolean \<open>True\<close>,
  although \<open>json.dumps(True)\<close> would have been \<open>"true"\<close>.
\<close>

theorem bool_param_not_converted:
  "req_params (outbound_request demo_loader [PStr ''matches'', PInt 5]
      [(''useSides'', PBool True), (''details'', PNone), (''fetch'', PNone)])
     = [(''useSides'', PBool True), (''details'', PNone), (''fetch'', PNone)]
   \<and> PBool True \<noteq> PStr ''true''
   \<and> json_dumps (PBool True) = ''true''"
  by (simp add: outbound_request_def)

text \<open>
  C4. An entry of \<open>params\<close> whose value is \<open>None\<close> is not in the query string of
  the request that \<open>get_route_json\<close> issues: \<open>get_route_json\<close> hands \<open>params\<close> to
  \<open>requests.get\<close>, which leaves such entries out while it prepares the request.
  The names in the query string are those of the entries whose value is not
  \<open>None\<close>. The names of \<open>params\<close>, being keyword names, are distinct.
\<close>

theorem none_param_excluded:
  assumes "distinct (map fst params)"
    and "map_of params k = Some PNone"
  shows "k \<notin> fst ` set (query_items (outbound_request self route params))
       \<and> fst ` set (query_items (outbound_request self route params))
           = fst ` set (filter (\<lambda>(k, v). v \<noteq> PNone) params)"
proof -
  have items: "query_items (outbound_request self route params)
      = map (\<lambda>(k, v). (k, py_str v)) (filter (\<lambda>(k, v). v \<noteq> PNone) params)"
    by (simp add: query_items_def encode_params_def merge_setting_def outbound_request_def
          convert_params_same)
  have names: "fst ` set (query_items (outbound_request self route params))
      = fst ` set (filter (\<lambda>(k, v). v \<noteq> PNone) params)"
    unfolding items by force
  have "k \<notin> fst ` set (filter (\<lambda>(k, v). v \<noteq> PNone) params)"
  proof
    assume "k \<in> fst ` set (filter (\<lambda>(k, v). v \<noteq> PNone) params)"
    then obtain v where v: "(k, v) \<in> set params" "v \<noteq> PNone"
      by auto
    from v(1) assms(1) have "map_of params k = Some v"
      by simp
    with assms(2) v(2) show False
      by simp
  qed
  with names show ?thesis
    by simp
qed

theorem none_param_excluded_witness:
  "distinct (map fst [(''details'', PNone), (''fetch'', PStr ''teams'')])
   \<and> map_of [(''details'', PNone), (''fetch'', PStr ''teams'')] ''details'' = Some PNone
   \<and> ''details'' \<notin> fst ` set (query_items (outbound_request demo_loader [PStr ''areas'']
        [(''details'', PNone), (''fetch'', PStr ''teams'')]))
   \<and> query_string (outbound_request demo_loader [PStr ''areas'']
        [(''details'', PNone), (''fetch'', PStr ''teams'')]) = ''fetch=teams''"
proof -
  have q: "query_string (outbound_request demo_loader [PStr ''areas'']
        [(''details'', PNone), (''fetch'', PStr ''teams'')]) = ''fetch=teams''"
    by (simp add: query_string_def query_items_def encode_params_def merge_setting_def
          outbound_request_def urlencode_def quote_plus_def quote_char_def always_safe_def)
  show ?thesis
    using none_param_excluded
      [of "[(''details'', PNone), (''fetch'', PStr ''teams'')]" "''details''"
          demo_loader "[PStr ''areas'']"] q
    by simp
qed

section \<open>Classification of the response\<close>

text \<open>
  C2. When the decoded body is a mapping whose \<open>error\<close> is truthy: an error that is
  a string \<open>s\<close> raises \<open>UnknownError(s)\<close>; an error that is a mapping with a \<open>code\<close>
  and a \<open>message\<close> raises \<open>AuthenticationError(message)\<close> for code 401,
  \<open>BadRequestError(message)\<close> for 400, \<open>TooManyRequestsError(message)\<close> for 429 and
  \<open>UnknownError(message)\<close> for any other code. The code is compared as Python's
  \<open>==\<close> compares it.
\<close>

theorem error_classification:
  assumes "requests_get (outbound_request self route params) = Inr r"
    and "body r = Some (JDict d)"
    and "map_of d ''error'' = Some err"
    and "truthy err"
  shows "(\<forall>s. err = JStr s \<longrightarrow>
            get_route_json requests_get self route params = Inl (UnknownError (JStr s)))
       \<and> (\<forall>m code message.
            err = JDict m \<and> map_of m ''code'' = Some code
              \<and> map_of m ''message'' = Some message \<longrightarrow>
            get_route_json requests_get self route params =
              Inl (if py_eq_int code 401 then AuthenticationError message
                   else if py_eq_int code 400 then BadRequestError message
                   else if py_eq_int code 429 then TooManyRequestsError message
                   else UnknownError message))"
proof -
  have "get_route_json requests_get self route params = Inl (raise_for_error err)"
    using assms by (simp add: get_route_json_response parse_response_error)
  then show ?thesis
    by (simp add: raise_for_error_def raise_message_def)
qed

theorem error_classification_witness:
  "canned (Response (Some (JDict
       [(''error'', JDict [(''code'', JInt 401), (''message'', JStr ''bad creds'')])])))
     (outbound_request demo_loader [PStr ''areas''] [(''details'', PNone), (''fetch'', PNone)])
     = Inr (Response (Some (JDict
         [(''error'', JDict [(''code'', JInt 401), (''message'', JStr ''bad creds'')])])))
   \<and> truthy (JDict [(''code'', JInt 401), (''message'', JStr ''bad creds'')])
   \<and> get_route_json
       (canned (Response (Some (JDict
          [(''error'', JDict [(''code'', JInt 401), (''message'', JStr ''bad creds'')])]))))
       demo_loader [PStr ''areas''] [(''details'', PNone), (''fetch'', PNone)]
     = Inl (AuthenticationError (JStr ''bad creds''))"
  using error_classification
    [of "canned (Response (Some (JDict
           [(''error'', JDict [(''code'', JInt 401), (''message'', JStr ''bad creds'')])])))"
        demo_loader "[PStr ''areas'']" "[(''details'', PNone), (''fetch'', PNone)]"
        "Response (Some (JDict
           [(''error'', JDict [(''code'', JInt 401), (''message'', JStr ''bad creds'')])]))"
        "[(''error'', JDict [(''code'', JInt 401), (''message'', JStr ''bad creds'')])]"
        "JDict [(''code'', JInt 401), (''message'', JStr ''bad creds'')]"]
  by (simp add: canned_def)

text \<open>
  C3. When the decoded body is a list, or a mapping whose \<open>error\<close> is absent or
  falsy, \<open>get_route_json\<close> returns the body itself and raises nothing.
\<close>

theorem success_returns_body:
  assumes "requests_get (outbound_request self route params) = Inr r"
    and "body r = Some content"
    and "(\<exists>xs. content = JList xs)
       \<or> (\<exists>d. content = JDict d \<and>
             (map_of d ''error'' = None
              \<or> (\<exists>v. map_of d ''error'' = Some v \<and> \<not> truthy v)))"
  shows "get_route_json requests_get self route params = Inr content"
proof -
  have "parse_response r = Inr content"
    using assms(2,3) by (auto simp: parse_response_def response_json_def)
  then show ?thesis
    using assms(1) by (simp add: get_route_json_response)
qed

theorem success_returns_body_witness:
  "canned (Response (Some (JList [JInt 1, JInt 2, JInt 3])))
     (outbound_request demo_loader [PStr ''areas''] [(''details'', PNone), (''fetch'', PNone)])
     = Inr (Response (Some (JList [JInt 1, JInt 2, JInt 3])))
   \<and> body (Response (Some (JList [JInt 1, JInt 2, JInt 3])))
       = Some (JList [JInt 1, JInt 2, JInt 3])
   \<and> get_route_json (canned (Response (Some (JList [JInt 1, JInt 2, JInt 3]))))
       demo_loader [PStr ''areas''] [(''details'', PNone), (''fetch'', PNone)]
     = Inr (JList [JInt 1, JInt 2, JInt 3])"
  using success_returns_body
    [of "canned (Response (Some (JList [JInt 1, JInt 2, JInt 3])))"
        demo_loader "[PStr ''areas'']" "[(''details'', PNone), (''fetch'', PNone)]"
        "Response (Some (JList [JInt 1, JInt 2, JInt 3]))" "JList [JInt 1, JInt 2, JInt 3]"]
  by (simp add: canned_def)

text \<open>
  C9. When the decoded body is a mapping whose \<open>error\<close> is a non-empty mapping: if
  it has no key \<open>code\<close> the call ends in \<open>KeyError('code')\<close>, and if it has a \<open>code\<close>
  but no \<open>message\<close> it ends in \<open>KeyError('message')\<close>, whichever branch the code
  selects. Neither is an exception derived from \<open>WyscoutAPIError\<close>.
\<close>

theorem error_mapping_missing_key:
  assumes "requests_get (outbound_request self route params) = Inr r"
    and "body r = Some (JDict d)"
    and "map_of d ''error'' = Some (JDict m)"
    and "m \<noteq> []"
  shows "(map_of m ''code'' = None \<longrightarrow>
            get_route_json requests_get self route params = Inl (KeyError ''code''))
       \<and> (map_of m ''code'' \<noteq> None \<and> map_of m ''message'' = None \<longrightarrow>
            get_route_json requests_get self route params = Inl (KeyError ''message''))
       \<and> \<not> is_WyscoutAPIError (KeyError ''code'')
       \<and> \<not> is_WyscoutAPIError (KeyError ''message'')"
proof -
  have "get_route_json requests_get self route params = Inl (raise_for_error (JDict m))"
    using assms by (simp add: get_route_json_response parse_response_error)
  then show ?thesis
    by (auto simp: raise_for_error_def raise_message_def)
qed

theorem error_mapping_missing_key_witness:
  "canned (Response (Some (JDict [(''error'', JDict [(''message'', JStr ''no code'')])])))
     (outbound_request demo_loader [PStr ''areas''] [(''details'', PNone), (''fetch'', PNone)])
     = Inr (Response (Some (JDict [(''error'', JDict [(''message'', JStr ''no code'')])])))
   \<and> [(''message'', JStr ''no code'')] \<noteq> []
   \<and> map_of [(''message'', JStr ''no code'')] ''code'' = None
   \<and> get_route_json
       (canned (Response (Some (JDict [(''error'', JDict [(''message'', JStr ''no code'')])]))))
       demo_loader [PStr ''areas''] [(''details'', PNone), (''fetch'', PNone)]
     = Inl (KeyError ''code'')"
  using error_mapping_missing_key
    [of "canned (Response (Some (JDict [(''error'', JDict [(''message'', JStr ''no code'')])])))"
        demo_loader "[PStr ''areas'']" "[(''details'', PNone), (''fetch'', PNone)]"
        "Response (Some (JDict [(''error'', JDict [(''message'', JStr ''no code'')])]))"
        "[(''error'', JDict [(''message'', JStr ''no code'')])]"
        "[(''message'', JStr ''no code'')]"]
  by (simp add: canned_def)

section \<open>URL and credentials\<close>

text \<open>
  C6. The URL is the base host, the version and the segments, each segment turned
  into a string by \<open>str\<close> and each preceded by \<open>/\<close>; with no segment at all it is
  the base host, \<open>/\<close>, the version and a closing \<open>/\<close>. With version \<open>v3\<close> the
  segments \<open>"teams", 123, "squad"\<close> give
  \<open>https://apirest.wyscout.com/v3/teams/123/squad\<close>.
\<close>

theorem url_build:
  "url self (r # rs) =
     concat (BASE_URL # map (\<lambda>s. ''/'' @ s) (py_str (version self) # map py_str (r # rs)))
   \<and> url self [] = BASE_URL @ ''/'' @ py_str (version self) @ ''/''
   \<and> url (self\<lparr>version := PStr ''v3''\<rparr>) [PStr ''teams'', PInt 123, PStr ''squad'']
       = ''https://apirest.wyscout.com/v3/teams/123/squad''"
proof -
  have "url self (r # rs) =
     concat (BASE_URL # map (\<lambda>s. ''/'' @ s) (py_str (version self) # map py_str (r # rs)))"
    by (simp add: url_def str_join_Cons)
  moreover have "url self [] = BASE_URL @ ''/'' @ py_str (version self) @ ''/''"
    by (simp add: url_def)
  moreover have "int_str 123 = ''123''"
    by (simp add: int_str_def nat_str.simps digit_char_def)
  then have "url (self\<lparr>version := PStr ''v3''\<rparr>) [PStr ''teams'', PInt 123, PStr ''squad'']
       = ''https://apirest.wyscout.com/v3/teams/123/squad''"
    by (simp add: url_def BASE_URL_def)
  ultimately show ?thesis by blast
qed

text \<open>
  C7. Constructing a loader (with a positive number of requests per second, which
  the rate limiter demands) stores the username, and sets the headers to the single
  entry \<open>Authorization\<close>: \<open>Basic\<close>, a space and the base64 encoding of
  \<open>username:password\<close>. No other field depends on the password: the loader built
  from any other password differs from it in the headers only.
\<close>

theorem init_stores_username_and_header:
  assumes "0 < requests_per_sec"
  shows "\<exists>l. init user password ver requests_per_sec = Inr l
           \<and> username l = user
           \<and> headers l =
               [(''Authorization'',
                 ''Basic '' @ b64encode (py_str user @ '':'' @ py_str password))]
           \<and> (\<forall>password'. \<exists>l'. init user password' ver requests_per_sec = Inr l'
                  \<and> l'\<lparr>headers := headers l\<rparr> = l)"
  using assms by (simp add: init_def RateLimiter_init_def)

theorem init_stores_username_and_header_witness:
  "(0::int) < 12
   \<and> init (PStr ''user'') (PStr ''pass'') (PStr ''v3'') 12 = Inr demo_loader
   \<and> username demo_loader = PStr ''user''
   \<and> headers demo_loader = [(''Authorization'', ''Basic dXNlcjpwYXNz'')]
   \<and> (\<exists>l'. init (PStr ''user'') (PStr ''hunter2'') (PStr ''v3'') 12 = Inr l'
          \<and> l'\<lparr>headers := headers demo_loader\<rparr> = demo_loader)"
proof -
  have b: "b64encode ''user:pass'' = ''dXNlcjpwYXNz''"
    by (simp add: b64encode_def b64_char_def b64_alphabet_def)
  have i: "init (PStr ''user'') (PStr ''pass'') (PStr ''v3'') 12 = Inr demo_loader"
    by (simp add: init_def RateLimiter_init_def demo_loader_def b)
  show ?thesis
    using init_stores_username_and_header
      [of 12 "PStr ''user''" "PStr ''pass''" "PStr ''v3''"] i
    by (auto simp: demo_loader_def)
qed

section \<open>Client methods\<close>

text \<open>
  C8. When the response to \<open>updated_objects(timestamp, object_type)\<close> decodes to a
  mapping that reports no error and has the key \<open>object_type\<close>, the method returns
  the value at that key, not the mapping.
\<close>

theorem updated_objects_indexes:
  assumes "requests_get (outbound_request (loader self) [PStr ''updatedobjects'']
             [(''updated_since'', PStr timestamp), (''type'', PStr object_type)]) = Inr r"
    and "body r = Some (JDict d)"
    and "map_of d ''error'' = None \<or> (\<exists>e. map_of d ''error'' = Some e \<and> \<not> truthy e)"
    and "map_of d object_type = Some v"
  shows "updated_objects requests_get self timestamp object_type = Inr v"
proof -
  have "parse_response r = Inr (JDict d)"
    using assms(2,3) by (auto simp: parse_response_def response_json_def)
  then have "get_route_json requests_get (loader self) [PStr ''updatedobjects'']
      [(''updated_since'', PStr timestamp), (''type'', PStr object_type)] = Inr (JDict d)"
    using assms(1) by (simp add: get_route_json_response)
  then show ?thesis
    using assms(4) by (simp add: updated_objects_def)
qed

theorem updated_objects_indexes_witness:
  "canned (Response (Some (JDict [(''players'', JList [JInt 7, JInt 9])])))
     (outbound_request (loader \<lparr>loader = demo_loader\<rparr>) [PStr ''updatedobjects'']
        [(''updated_since'', PStr ''2018-02-09 18:00:00''), (''type'', PStr ''players'')])
     = Inr (Response (Some (JDict [(''players'', JList [JInt 7, JInt 9])])))
   \<and> map_of [(''players'', JList [JInt 7, JInt 9])] ''error'' = None
   \<and> map_of [(''players'', JList [JInt 7, JInt 9])] ''players''
       = Some (JList [JInt 7, JInt 9])
   \<and> updated_objects
       (canned (Response (Some (JDict [(''players'', JList [JInt 7, JInt 9])]))))
       \<lparr>loader = demo_loader\<rparr> ''2018-02-09 18:00:00'' ''players''
     = Inr (JList [JInt 7, JInt 9])"
  using updated_objects_indexes
    [of "canned (Response (Some (JDict [(''players'', JList [JInt 7, JInt 9])])))"
        "\<lparr>loader = demo_loader\<rparr>" "''2018-02-09 18:00:00''" "''players''"
        "Response (Some (JDict [(''players'', JList [JInt 7, JInt 9])]))"
        "[(''players'', JList [JInt 7, JInt 9])]" "JList [JInt 7, JInt 9]"]
  by (simp add: canned_def)

text \<open>
  C10. \<open>team_career\<close> takes \<open>season_id\<close> and does not pass it on: whatever its
  value, the call is the one made without it, to the route
  \<open>'teams', team_id, 'career'\<close> with the parameters \<open>details\<close> and \<open>fetch\<close> and no
  other.
\<close>

theorem team_career_ignores_season_id:
  "team_career requests_get self team_id season_id details fetch =
     team_career requests_get self team_id PNone details fetch
   \<and> team_career requests_get self team_id season_id details fetch =
       get_route_json requests_get (loader self) [PStr ''teams'', team_id, PStr ''career'']
         [(''details'', details), (''fetch'', fetch)]
   \<and> map fst (req_params (outbound_request (loader self)
        [PStr ''teams'', team_id, PStr ''career'']
        [(''details'', details), (''fetch'', fetch)])) = [''details'', ''fetch'']"
  by (simp add: team_career_def outbound_request_def)

end
